theory Spec2Isabelle
  imports Complex_Main
begin

unbundle bit_operations_syntax

section \<open>Python values and exceptions\<close>

text \<open>
  The module \<^verbatim>\<open>pystiebeleltron.py\<close> keeps everything in dictionaries whose entries hold
  integers, floats, strings and lists of strings. Python integers are unbounded
  (\<^typ>\<open>int\<close>). A Python float is modelled by the exact rational it stands for: the model
  computes \<^verbatim>\<open>raw * 0.1\<close> as \<open>raw / 10\<close>, without the binary representation error of
  IEEE doubles. The two agree wherever the exact value is more than a representation
  error away from a rounding boundary, and on values that are doubles themselves (2.25,
  22.5, 0.125). They can differ where the exact value is a decimal tie that no double
  represents: for the type-7 words 5 and 15 the double of \<^verbatim>\<open>raw * 0.01\<close> lies beside the
  tie and decides the source's result, and a product such as \<^verbatim>\<open>1.015 * 100\<close> is a double
  just below 101.5. The concrete values at which the theorems below are evaluated (the
  words 151 and 215, the floats 2.25, 0.125 and 22.5) are not of that kind. Strings are
  lists of code points.
\<close>

datatype pyval =
    VInt int
  | VFloat rat
  | VStr string
  | VList "string list"

text \<open>
  The exceptions the module can meet. \<open>Exception\<close> is the bare \<^verbatim>\<open>Exception(msg)\<close> the
  module raises itself; \<open>AttributeError\<close> is what reading \<^verbatim>\<open>.registers\<close> of a reply
  without that attribute raises; \<open>OtherError\<close> stands for an exception of any other
  class (named by the string) that the Modbus client raises.
\<close>

datatype py_exn =
    Exception string
  | AttributeError
  | KeyError string
  | IndexError
  | TypeError
  | OtherError string

subsection \<open>The builtin \<^verbatim>\<open>round\<close>\<close>

text \<open>
  Python 3 rounds to the nearest integer and, when the value lies exactly half way
  between two integers, to the even one. \<^verbatim>\<open>round(x, n)\<close> does the same at the n-th
  decimal.
\<close>

definition py_round :: "rat \<Rightarrow> int" where
  "py_round x =
     (let f = \<lfloor>x\<rfloor>; d = x - of_int f
      in if d < 1 / 2 then f
         else if 1 / 2 < d then f + 1
         else if even f then f else f + 1)"

definition py_round_nd :: "rat \<Rightarrow> nat \<Rightarrow> rat" where
  "py_round_nd x n = of_int (py_round (x * 10 ^ n)) / 10 ^ n"

section \<open>The register catalogue\<close>

text \<open>
  A register is a pair of its name and a dictionary with the keys \<^verbatim>\<open>addr\<close> and
  \<^verbatim>\<open>type\<close>, optionally \<^verbatim>\<open>unit\<close> and \<^verbatim>\<open>code\<close>, and, once \<^verbatim>\<open>update\<close> has stored
  a word for it, \<^verbatim>\<open>value_raw\<close> and \<^verbatim>\<open>value\<close>. A code map is a dictionary from label
  to integer; Python iterates it in the order of declaration, so it is an association
  list here.
\<close>

record item =
  item_addr :: int
  item_type :: int
  item_unit :: "string option"
  item_code :: "(string \<times> int) list option"
  item_value_raw :: "int option"
  item_value :: "pyval option"

type_synonym register = "string \<times> item"

datatype rkind = INPUT | HOLDING

text \<open>A block is a dictionary from \<^verbatim>\<open>'INPUT'\<close> or \<^verbatim>\<open>'HOLDING'\<close> to a list of registers.\<close>

type_synonym block = "(rkind \<times> register list) list"

record unit_table =
  ERRORS :: "(string \<times> int) list option"
  BLOCKS :: "block list option"

type_synonym registers = "(string \<times> unit_table) list"

definition reg_u :: "string \<Rightarrow> int \<Rightarrow> int \<Rightarrow> string \<Rightarrow> register" where
  "reg_u name a ty u =
     (name, \<lparr>item_addr = a, item_type = ty, item_unit = Some u, item_code = None,
             item_value_raw = None, item_value = None\<rparr>)"

definition reg_p :: "string \<Rightarrow> int \<Rightarrow> int \<Rightarrow> register" where
  "reg_p name a ty =
     (name, \<lparr>item_addr = a, item_type = ty, item_unit = None, item_code = None,
             item_value_raw = None, item_value = None\<rparr>)"

definition reg_c :: "string \<Rightarrow> int \<Rightarrow> int \<Rightarrow> (string \<times> int) list \<Rightarrow> register" where
  "reg_c name a ty cm =
     (name, \<lparr>item_addr = a, item_type = ty, item_unit = None, item_code = Some cm,
             item_value_raw = None, item_value = None\<rparr>)"

text \<open>The unit labels that are not ASCII, by code point: U+00B0 and U+00B3.\<close>

definition degC :: string where
  "degC = [CHR 0xB0, CHR ''C'']"

definition m3h :: string where
  "m3h = [CHR ''m'', CHR 0xB3, CHR ''/'', CHR ''h'']"

definition LWZ_ERRORS :: "(string \<times> int) list" where
  "LWZ_ERRORS =
     [(''N/A'', 32768),
      (''SENSOR_LEAD_MISSING'', - 60),
      (''SHORTCUT'', - 50)]"

definition LWZ_BLOCK1 :: "register list" where
  "LWZ_BLOCK1 =
     [reg_u ''ACTUAL_ROOM_TEMPERATURE_HC1'' 1 2 degC,
      reg_u ''SET_ROOM_TEMPERATURE_HC1'' 2 2 degC,
      reg_u ''ACTUAL_ROOM_TEMPERATURE_HC2'' 4 2 degC,
      reg_u ''SET_ROOM_TEMPERATURE_HC2'' 5 2 degC,
      reg_u ''RELATIVE_HUMIDITY_HC1'' 3 2 ''%'',
      reg_u ''RELATIVE_HUMIDITY_HC2'' 6 2 ''%'',
      reg_u ''OUTSIDE_TEMPERATURE'' 7 2 degC,
      reg_u ''ACTUAL_VALUE_HC1'' 8 2 degC,
      reg_u ''SET_VALUE_HC1'' 9 2 degC,
      reg_u ''ACTUAL_VALUE_HC2'' 10 2 degC,
      reg_u ''SET_VALUE_HC2'' 11 2 degC,
      reg_u ''FLOW_TEMPERATURE'' 12 2 degC,
      reg_u ''RETURN_TEMPERATURE'' 13 2 degC,
      reg_u ''PRESSURE_HEATING_CIRCUIT'' 14 2 ''bar'',
      reg_u ''FLOW_RATE'' 15 2 ''l/min'',
      reg_u ''ACTUAL_DHW_TEMPERATURE'' 16 2 degC,
      reg_u ''SET_DHW_TEMPERATURE'' 17 2 degC,
      reg_u ''VENTILATION_AIR_ACTUAL_FAN_SPEED'' 18 6 ''Hz'',
      reg_u ''VENTILATION_AIR_SET_FLOW_RATE'' 19 6 m3h,
      reg_u ''EXTRACT_AIR_ACTUAL_FAN_SPEED'' 20 6 ''Hz'',
      reg_u ''EXTRACT_AIR_SET_FLOW_RATE'' 21 6 m3h,
      reg_u ''EXTRACT_AIR_HUMIDITY'' 22 6 ''%'',
      reg_u ''EXTRACT_AIR_TEMPERATURE'' 23 2 degC,
      reg_u ''EXTRACT_AIR_DEW_POINT'' 24 2 degC,
      reg_u ''DEW_POINT_TEMPERATURE_HC1'' 25 2 degC,
      reg_u ''DEW_POINT_TEMPERATURE_HC2'' 26 2 degC,
      reg_u ''COLLECTOR_TEMPERATURE'' 27 2 degC,
      reg_u ''HOT_GAS_TEMPERATURE'' 28 2 degC,
      reg_u ''HIGH_PRESSURE'' 29 7 ''bar'',
      reg_u ''LOW_PRESSURE'' 30 7 ''bar'',
      reg_p ''COMPRESSOR_STARTS'' 31 6,
      reg_u ''COMPRESSOR_SPEED'' 32 2 ''Hz'',
      reg_u ''MIXED_WATER_AMOUNT'' 33 6 ''l'']"

definition LWZ_BLOCK2 :: "register list" where
  "LWZ_BLOCK2 =
     [reg_c ''OPERATING_MODE'' 1001 8
        [(''AUTOMATIC'', 11),
         (''STANDBY'', 1),
         (''DAY MODE'', 3),
         (''SETBACK MODE'', 4),
         (''DHW'', 5),
         (''MANUAL MODE'', 14),
         (''EMERGENCY OPERATION'', 0)],
      reg_u ''ROOM_TEMP_HEAT_DAY_HC1'' 1002 2 degC,
      reg_u ''ROOM_TEMP_HEAT_NIGHT_HC1'' 1003 2 degC,
      reg_u ''MANUAL_SET_TEMP_HC1'' 1004 2 degC,
      reg_u ''ROOM_TEMP_HEAT_DAY_HC2'' 1005 2 degC,
      reg_u ''ROOM_TEMP_HEAT_NIGHT_HC2'' 1006 2 degC,
      reg_u ''MANUAL_SET_TEAMP_HC2'' 1007 2 degC,
      reg_u ''GRADIENT_HC1'' 1008 7 degC,
      reg_u ''LOW_END_HC1'' 1009 2 degC,
      reg_u ''GRADIENT_HC2'' 1010 7 degC,
      reg_u ''LOW_END_HC2'' 1011 2 degC,
      reg_u ''DHW_TEMP_SET_DAY'' 1012 2 degC,
      reg_u ''DHW_TEMP_SET_NIGHT'' 1013 2 degC,
      reg_u ''DHW_TEMP_SET_MANUAL'' 1014 2 degC,
      reg_u ''MWM_SET_DAY'' 1015 6 ''l'',
      reg_u ''MWM_SET_NIGHT'' 1016 6 ''l'',
      reg_u ''MWM_SET_MANUAL'' 1017 6 ''l'',
      reg_p ''DAY_STAGE'' 1018 6,
      reg_p ''NIGHT_STAGE'' 1019 6,
      reg_p ''PARTY_STAGE'' 1020 6,
      reg_p ''MANUAL_STAGE'' 1021 6,
      reg_u ''ROOM_TEMP_COOL_DAY_HC1'' 1022 2 degC,
      reg_u ''ROOM_TEMP_COOL_NIGHT_HC1'' 1023 2 degC,
      reg_u ''ROOM_TEMP_COOL_DAY_HC2'' 1024 2 degC,
      reg_u ''ROOM_TEMP_COOL_NIGHT_HC2'' 1025 2 degC,
      reg_c ''RESET'' 1026 6
        [(''OFF'', 0),
         (''ON'', 1)],
      reg_c ''RESTART_ISG'' 1027 6
        [(''OFF'', 0),
         (''RESET'', 1),
         (''MENU'', 2)]]"

definition LWZ_BLOCK3 :: "register list" where
  "LWZ_BLOCK3 =
     [reg_c ''OPERATING_STATUS'' 2001 6
        [(''SWITCHING_PROGRAM_ENABLED'', push_bit 0 1),
         (''COMPRESSOR'', push_bit 1 1),
         (''HEATING'', push_bit 2 1),
         (''COOLING'', push_bit 3 1),
         (''DHW'', push_bit 4 1),
         (''ELECTRIC_REHEATING'', push_bit 5 1),
         (''SERVICE'', push_bit 6 1),
         (''POWER-OFF'', push_bit 7 1),
         (''FILTER'', push_bit 8 1),
         (''VENTILATION'', push_bit 9 1),
         (''HEATING_CIRCUIT_PUMP'', push_bit 10 1),
         (''EVAPORATOR_DEFROST'', push_bit 11 1),
         (''FILTER_EXTRACT_AIR'', push_bit 12 1),
         (''FILTER_VENTILATION_AIR'', push_bit 13 1),
         (''HEAT-UP_PROGRAM'', push_bit 14 1)],
      reg_c ''FAULT_STATUS'' 2002 6
        [(''NO_FAULT'', 0),
         (''FAULT'', 1)],
      reg_c ''BUS_STATUS'' 2003 6
        [(''STATUS OK'', 0),
         (''STATUS ERROR'', - 1),
         (''ERROR-PASSIVE'', - 2),
         (''BUS-OFF'', - 3),
         (''PHYSICAL-ERROR'', - 4)],
      reg_c ''DEFROST_INITIATED'' 2004 6
        [(''OFF'', 0),
         (''INITIATED'', 1)],
      reg_c ''OPERATING_STATUS-2'' 2005 6
        [(''SUMMER_MODE_ACTIVE'', push_bit 0 1),
         (''OVEN/FIREPLACE_MODE_ACTIVE'', push_bit 1 1)]]"

definition LWZ_BLOCK4 :: "register list" where
  "LWZ_BLOCK4 =
     [reg_u ''HEAT_METER_HEATING_DAY'' 3001 6 ''kWh'',
      reg_u ''HEAT_METER_HEATING_TOTAL_kWh'' 3002 6 ''kWh'',
      reg_u ''HEAT_METER_HEATING_TOTAL_MWh'' 3003 6 ''MWh'',
      reg_u ''HEAT_METER_DHW_DAY'' 3004 6 ''kWh'',
      reg_u ''HEAT_METER_DHW_TOTAL_kWh'' 3005 6 ''kWh'',
      reg_u ''HEAT_METER_DHW_TOTAL_MWh'' 3006 6 ''MWh'',
      reg_u ''HEAT_METER_BOOST_HEATING_TOTAL_kWh'' 3007 6 ''kWh'',
      reg_u ''HEAT_METER_BOOST_HEATING_TOTAL_MWh'' 3008 6 ''MWh'',
      reg_u ''HEAT_METER_BOOST_DHW_TOTAL_kWh'' 3009 6 ''kWh'',
      reg_u ''HEAT_METER_BOOST_DHW_TOTAL_MWh'' 3010 6 ''MWh'',
      reg_u ''HEAT_METER_RECOVERY_DAY'' 3011 6 ''kWh'',
      reg_u ''HEAT_METER_RECOVERY_TOTAL_kWh'' 3012 6 ''kWh'',
      reg_u ''HEAT_METER_RECOVERY_TOTAL_MWh'' 3013 6 ''MWh'',
      reg_u ''HEAT_METER_SOLAR_HEATING_DAY'' 3014 6 ''kWh'',
      reg_u ''HEAT_METER_SOLAR_HEATING_TOTAL_kWh'' 3015 6 ''kWh'',
      reg_u ''HEAT_METER_SOLAR_HEATING_TOTAL_MWh'' 3016 6 ''MWh'',
      reg_u ''HEAT_METER_SOLAR_DHW_DAY'' 3017 6 ''kWh'',
      reg_u ''HEAT_METER_SOLAR_DHW_TOTAL_kWh'' 3018 6 ''kWh'',
      reg_u ''HEAT_METER_SOLAR_DHW_TOTAL_MWh'' 3019 6 ''MWh'',
      reg_u ''HEAT_METER_COOLING_TOTAL_kWh'' 3020 6 ''kWh'',
      reg_u ''HEAT_METER_COOLING_TOTAL_MWh'' 3021 6 ''MWh'',
      reg_u ''POWER_METER_HEATING_DAY'' 3022 6 ''kWh'',
      reg_u ''POWER_METER_HEATING_TOTAL_kWh'' 3023 6 ''kWh'',
      reg_u ''POWER_METER_HEATING_TOTAL_MWh'' 3024 6 ''MWh'',
      reg_u ''POWER_METER_DHW_DAY'' 3025 6 ''kWh'',
      reg_u ''POWER_METER_DHW_TOTAL_kWh'' 3026 6 ''kWh'',
      reg_u ''POWER_METER_DHW_TOTAL_MWh'' 3027 6 ''MWh'',
      reg_u ''TIMER_COMPRESSOR_HEATING'' 3028 6 ''h'',
      reg_u ''TIMER_COMPRESSOR_COOLING'' 3029 6 ''h'',
      reg_u ''TIMER_COMPRESSOR_DHW'' 3030 6 ''h'',
      reg_u ''TIMER_BOOSTER_HEATING'' 3031 6 ''h'',
      reg_u ''TIMER_BOOSTER_DHW'' 3032 6 ''h'']"

definition LWZ_BLOCK5 :: "register list" where
  "LWZ_BLOCK5 =
     [reg_c ''EM_SGREADY_SWITCH'' 4001 6
        [(''OFF'', 0),
         (''ON'', 1)],
      reg_c ''EM_SGREADY_INPUT_1'' 4002 6
        [(''OFF'', 0),
         (''ON'', 1)],
      reg_c ''EM_SGREADY_INPUT_2'' 4003 6
        [(''OFF'', 0),
         (''ON'', 1)]]"

definition LWZ_BLOCK6 :: "register list" where
  "LWZ_BLOCK6 =
     [reg_c ''EM_SGREADY_OPERATING_MODE'' 5001 6
        [(''REDUCED'', 1),
         (''STANDARD'', 2),
         (''INCREASED'', 3),
         (''MAXIMIZED'', 4)],
      reg_c ''CONTROLLER_ID'' 5002 6
        [(''LWZ 303/403 Integral/SOL; LWA 403; LWZ 304/404 Trend; LWZ 304/404 Flex; LWZ Smart; LWZ 604 Air; LWZ 5 S Plus/Trend/Smart'', 103),
         (''LWZ 304/404 SOL; LWZ 504; LWZ 5/8 CS Premium'', 104),
         (''WPM 3'', 390),
         (''WPM 3i'', 391),
         (''WPMsystem'', 449)]]"

definition LWZ_BLOCKS :: "block list" where
  "LWZ_BLOCKS =
     [[(INPUT, LWZ_BLOCK1)],
      [(HOLDING, LWZ_BLOCK2)],
      [(INPUT, LWZ_BLOCK3)],
      [(INPUT, LWZ_BLOCK4)],
      [(HOLDING, LWZ_BLOCK5)],
      [(INPUT, LWZ_BLOCK6)]]"

definition REGISTERS :: registers where
  "REGISTERS =
     [(''LWZ'', \<lparr>ERRORS = Some LWZ_ERRORS, BLOCKS = Some LWZ_BLOCKS\<rparr>),
      (''WPM'', \<lparr>ERRORS = None, BLOCKS = None\<rparr>)]"

section \<open>The value codec\<close>

text \<open>
  \<^verbatim>\<open>for (err_name, err_code) in ERRORS.items(): if result == err_code: ...\<close>
  The accumulator is \<open>None\<close> while \<^verbatim>\<open>is_error\<close> is false and \<^verbatim>\<open>result\<close> is still the
  raw word, and \<open>Some err_name\<close> once \<^verbatim>\<open>result\<close> has been replaced by the name: a
  string then never equals an integer code, so later entries leave it alone.
\<close>

primrec err_scan :: "(string \<times> int) list \<Rightarrow> int \<Rightarrow> string option \<Rightarrow> string option" where
  "err_scan [] result acc = acc"
| "err_scan (e # es) result acc =
     err_scan es result
       (case acc of
          None \<Rightarrow> if result = snd e then Some (fst e) else None
        | Some err_name \<Rightarrow> Some err_name)"

text \<open>
  The type factor of \<^verbatim>\<open>update\<close>: \<^verbatim>\<open>round(result * 0.1, 1)\<close> for type 2 and
  \<^verbatim>\<open>round(result * 0.01, 1)\<close> for type 7 (one decimal in both lines of the source).
  The source has two \<^verbatim>\<open>if\<close> statements in a row; a type is not both 2 and 7, so at
  most one of them applies.
\<close>

definition scale :: "int \<Rightarrow> int \<Rightarrow> pyval" where
  "scale ty result =
     (if ty = 2 then VFloat (py_round_nd (of_int result * (1 / 10)) 1)
      else if ty = 7 then VFloat (py_round_nd (of_int result * (1 / 100)) 1)
      else VInt result)"

text \<open>\<^verbatim>\<open>result == k\<close> and \<^verbatim>\<open>result & k\<close> for an integer \<open>k\<close>.\<close>

fun py_eq :: "pyval \<Rightarrow> int \<Rightarrow> bool" where
  "py_eq (VInt a) k = (a = k)"
| "py_eq (VFloat q) k = (q = of_int k)"
| "py_eq (VStr s) k = False"
| "py_eq (VList l) k = False"

fun py_and :: "pyval \<Rightarrow> int \<Rightarrow> py_exn + int" where
  "py_and (VInt a) k = Inr (a AND k)"
| "py_and (VFloat q) k = Inl TypeError"
| "py_and (VStr s) k = Inl TypeError"
| "py_and (VList l) k = Inl TypeError"

text \<open>
  \<^verbatim>\<open>for c in item['code'].keys()\<close>: an exact match resets the list to that one label and
  breaks; otherwise a label is appended when the bitwise AND is nonzero.
\<close>

fun code_scan :: "(string \<times> int) list \<Rightarrow> pyval \<Rightarrow> string list \<Rightarrow> py_exn + string list" where
  "code_scan [] result coded = Inr coded"
| "code_scan ((c, k) # cm) result coded =
     (if py_eq result k then Inr [c]
      else (case py_and result k of
              Inl e \<Rightarrow> Inl e
            | Inr b \<Rightarrow> code_scan cm result (if b \<noteq> 0 then coded @ [c] else coded)))"

text \<open>
  What \<^verbatim>\<open>update\<close> computes for one word before it stores \<^verbatim>\<open>item['value']\<close>. The
  errors table is \<^verbatim>\<open>REGISTERS[self._unit]['ERRORS']\<close>, looked up at this point.
\<close>

definition decode :: "(string \<times> int) list option \<Rightarrow> item \<Rightarrow> int \<Rightarrow> py_exn + pyval" where
  "decode errs it result =
     (case errs of
        None \<Rightarrow> Inl (KeyError ''ERRORS'')
      | Some es \<Rightarrow>
          (case err_scan es result None of
             Some err_name \<Rightarrow> Inr (VStr err_name)
           | None \<Rightarrow>
               (case item_code it of
                  None \<Rightarrow> Inr (scale (item_type it) result)
                | Some cm \<Rightarrow>
                    (case code_scan cm (scale (item_type it) result) [] of
                       Inl e \<Rightarrow> Inl e
                     | Inr coded \<Rightarrow> Inr (VList coded)))))"

text \<open>The type factor of \<^verbatim>\<open>set_register\<close>: \<^verbatim>\<open>round(value * 10)\<close>, \<^verbatim>\<open>round(value * 100)\<close>.\<close>

fun py_mul :: "pyval \<Rightarrow> int \<Rightarrow> pyval" where
  "py_mul (VInt a) k = VInt (a * k)"
| "py_mul (VFloat q) k = VFloat (q * of_int k)"
| "py_mul (VStr s) k = VStr (concat (replicate (nat k) s))"
| "py_mul (VList l) k = VList (concat (replicate (nat k) l))"

fun py_round_val :: "pyval \<Rightarrow> py_exn + pyval" where
  "py_round_val (VInt a) = Inr (VInt a)"
| "py_round_val (VFloat q) = Inr (VInt (py_round q))"
| "py_round_val (VStr s) = Inl TypeError"
| "py_round_val (VList l) = Inl TypeError"

definition apply_type_factor :: "int \<Rightarrow> pyval \<Rightarrow> py_exn + pyval" where
  "apply_type_factor ty v =
     (case (if ty = 2 then py_round_val (py_mul v 10) else Inr v) of
        Inl e \<Rightarrow> Inl e
      | Inr v1 \<Rightarrow> if ty = 7 then py_round_val (py_mul v1 100) else Inr v1)"

section \<open>The Modbus client and the session\<close>

text \<open>
  The Modbus client is an external object with a state of its own (type \<open>'t\<close>). A call
  returns the words of the reply's \<^verbatim>\<open>.registers\<close>, or the exception that the call or
  the attribute access raises, together with the client's next state. The slave id
  passed as \<^verbatim>\<open>unit=self._slave\<close> is the constant 1 and is left out of the signatures.
  A write returns the reply object, which \<^verbatim>\<open>set_register\<close> only pretty-prints: the
  response that echoes address and value, or an error object that the client returns
  instead of raising when the device does not answer as it should (the read path of
  \<^verbatim>\<open>update\<close> meets the same kind of reply, one without \<^verbatim>\<open>registers\<close>).
\<close>

datatype write_reply =
    WriteResponse int pyval
  | ErrorResponse string

record 't client =
  connect :: "'t \<Rightarrow> bool \<times> 't"
  read_input_registers :: "'t \<Rightarrow> int \<Rightarrow> int \<Rightarrow> (py_exn + int list) \<times> 't"
  read_holding_registers :: "'t \<Rightarrow> int \<Rightarrow> int \<Rightarrow> (py_exn + int list) \<times> 't"
  write_register :: "'t \<Rightarrow> int \<Rightarrow> pyval \<Rightarrow> (py_exn + write_reply) \<times> 't"

record api =
  api_unit :: string
  api_slave :: int
  api_update_on_read :: bool

fun join_str :: "string \<Rightarrow> string list \<Rightarrow> string" where
  "join_str sep [] = []"
| "join_str sep [x] = x"
| "join_str sep (x # y # ys) = x @ sep @ join_str sep (y # ys)"

definition no_registers_msg :: "registers \<Rightarrow> string \<Rightarrow> string" where
  "no_registers_msg R u =
     ''No registers found for unit '' @ [CHR 0x27] @ u @ [CHR 0x27] @ ''! Supported: ''
       @ join_str '', '' (map fst R)"

text \<open>\<^verbatim>\<open>__init__\<close>: the unit must be a key of \<^verbatim>\<open>REGISTERS\<close>; then the client connects.\<close>

definition init :: "registers \<Rightarrow> 't client \<Rightarrow> 't \<Rightarrow> string \<Rightarrow> bool \<Rightarrow> py_exn + (api \<times> 't)" where
  "init R cl t u update_on_read =
     (if u \<notin> set (map fst R) then Inl (Exception (no_registers_msg R u))
      else Inr (\<lparr>api_unit = u, api_slave = 1, api_update_on_read = update_on_read\<rparr>,
                snd (connect cl t)))"

section \<open>\<^verbatim>\<open>update\<close>\<close>

datatype log_entry =
    Info_processing_block nat
  | Warning_inconsistent_amounts int nat
  | Exception_modbus_read_failed

text \<open>
  \<^verbatim>\<open>for idx, result in enumerate(results): item = block[rtype][idx][1] ...\<close>
  The word is stored as \<^verbatim>\<open>value_raw\<close> first; \<^verbatim>\<open>value\<close> is stored when decoding has
  not raised. The second component is the exception that ended the loop, if any.
\<close>

fun assign_results ::
  "(string \<times> int) list option \<Rightarrow> register list \<Rightarrow> int list \<Rightarrow> register list \<times> py_exn option" where
  "assign_results errs regs [] = (regs, None)"
| "assign_results errs [] (result # results) = ([], Some IndexError)"
| "assign_results errs ((name, it) # regs) (result # results) =
     (case decode errs it result of
        Inl e \<Rightarrow> ((name, it\<lparr>item_value_raw := Some result\<rparr>) # regs, Some e)
      | Inr v \<Rightarrow>
          (case assign_results errs regs results of
             (regs', r) \<Rightarrow>
               ((name, it\<lparr>item_value_raw := Some result, item_value := Some v\<rparr>) # regs', r)))"

definition read_registers ::
  "'t client \<Rightarrow> rkind \<Rightarrow> 't \<Rightarrow> int \<Rightarrow> int \<Rightarrow> (py_exn + int list) \<times> 't" where
  "read_registers cl rtype =
     (case rtype of INPUT \<Rightarrow> read_input_registers cl | HOLDING \<Rightarrow> read_holding_registers cl)"

text \<open>The registers of a block's list are updated in place; the dictionary keeps its order.\<close>

fun block_set :: "block \<Rightarrow> rkind \<Rightarrow> register list \<Rightarrow> block" where
  "block_set [] rtype regs = []"
| "block_set ((k, old) # b) rtype regs =
     (if k = rtype then (k, regs) # b else (k, old) # block_set b rtype regs)"

text \<open>
  The body of \<^verbatim>\<open>for rtype in ('INPUT', 'HOLDING')\<close> for one block. The state is the
  block, the client's state and the log; the last component is the exception raised.
\<close>

definition update_rtype ::
  "(string \<times> int) list option \<Rightarrow> 't client \<Rightarrow> rkind \<Rightarrow> block \<times> 't \<times> log_entry list
     \<Rightarrow> (block \<times> 't \<times> log_entry list) \<times> py_exn option" where
  "update_rtype errs cl rtype st =
     (case st of (block, t, lg) \<Rightarrow>
       (case map_of block rtype of
          None \<Rightarrow> ((block, t, lg), None)
        | Some regs \<Rightarrow>
            (case regs of
               [] \<Rightarrow> ((block, t, lg), Some IndexError)
             | r0 # _ \<Rightarrow>
                 (case read_registers cl rtype t (item_addr (snd r0) - 1) (int (length regs)) of
                    (Inl e, t') \<Rightarrow> ((block, t', lg), Some e)
                  | (Inr results, t') \<Rightarrow>
                      if results \<noteq> [] \<and> length results = length regs
                      then (case assign_results errs regs results of
                              (regs', r) \<Rightarrow> ((block_set block rtype regs', t', lg), r))
                      else ((block, t',
                             lg @ [Warning_inconsistent_amounts (int (length regs)) (length results)]),
                            None)))))"

definition update_block ::
  "(string \<times> int) list option \<Rightarrow> 't client \<Rightarrow> block \<times> 't \<times> log_entry list
     \<Rightarrow> (block \<times> 't \<times> log_entry list) \<times> py_exn option" where
  "update_block errs cl st =
     (case update_rtype errs cl INPUT st of
        (st1, Some e) \<Rightarrow> (st1, Some e)
      | (st1, None) \<Rightarrow> update_rtype errs cl HOLDING st1)"

text \<open>\<^verbatim>\<open>for block_cnt, block in enumerate(..., start=1)\<close>, from the counter \<open>cnt\<close> on.\<close>

fun update_blocks ::
  "(string \<times> int) list option \<Rightarrow> 't client \<Rightarrow> nat \<Rightarrow> block list \<Rightarrow> 't \<times> log_entry list
     \<Rightarrow> (block list \<times> 't \<times> log_entry list) \<times> py_exn option" where
  "update_blocks errs cl cnt [] (t, lg) = (([], t, lg), None)"
| "update_blocks errs cl cnt (block # blocks) (t, lg) =
     (case update_block errs cl (block, t, lg @ [Info_processing_block cnt]) of
        ((block', t', lg'), Some e) \<Rightarrow> ((block' # blocks, t', lg'), Some e)
      | ((block', t', lg'), None) \<Rightarrow>
          (case update_blocks errs cl (Suc cnt) blocks (t', lg') of
             ((blocks', t'', lg''), r) \<Rightarrow> ((block' # blocks', t'', lg''), r)))"

text \<open>
  The body of the \<^verbatim>\<open>try\<close> statement up to \<^verbatim>\<open>ret = True\<close>: the lookup of
  \<^verbatim>\<open>REGISTERS[self._unit]['BLOCKS']\<close>, which raises for a table without that key, and
  the loops.
\<close>

definition try_body ::
  "unit_table \<Rightarrow> 't client \<Rightarrow> 't \<Rightarrow> (unit_table \<times> 't \<times> log_entry list) \<times> py_exn option" where
  "try_body tbl cl t =
     (case BLOCKS tbl of
        None \<Rightarrow> ((tbl, t, []), Some (KeyError ''BLOCKS''))
      | Some blocks \<Rightarrow>
          (case update_blocks (ERRORS tbl) cl 1 blocks (t, []) of
             ((blocks', t', lg), r) \<Rightarrow> ((tbl\<lparr>BLOCKS := Some blocks'\<rparr>, t', lg), r)))"

text \<open>
  The \<^verbatim>\<open>try\<close> statement: \<^verbatim>\<open>ret = True\<close> is reached when the body ends without an
  exception; \<^verbatim>\<open>except AttributeError\<close> logs and leaves \<^verbatim>\<open>ret = False\<close>; any other
  exception leaves the method.
\<close>

definition update_unit ::
  "unit_table \<Rightarrow> 't client \<Rightarrow> 't \<Rightarrow> (unit_table \<times> 't \<times> log_entry list) \<times> (py_exn + bool)" where
  "update_unit tbl cl t =
     (case try_body tbl cl t of
        (st, None) \<Rightarrow> (st, Inr True)
      | ((tbl', t', lg), Some AttributeError) \<Rightarrow>
          ((tbl', t', lg @ [Exception_modbus_read_failed]), Inr False)
      | (st, Some e) \<Rightarrow> (st, Inl e))"

fun table_set :: "registers \<Rightarrow> string \<Rightarrow> unit_table \<Rightarrow> registers" where
  "table_set [] u tbl = []"
| "table_set ((k, old) # R) u tbl =
     (if k = u then (k, tbl) # R else (k, old) # table_set R u tbl)"

definition update ::
  "registers \<Rightarrow> api \<Rightarrow> 't client \<Rightarrow> 't \<Rightarrow> (registers \<times> 't \<times> log_entry list) \<times> (py_exn + bool)" where
  "update R self cl t =
     (case map_of R (api_unit self) of
        None \<Rightarrow> ((R, t, []), Inl (KeyError (api_unit self)))
      | Some tbl \<Rightarrow>
          (case update_unit tbl cl t of
             ((tbl', t', lg), r) \<Rightarrow> ((table_set R (api_unit self) tbl', t', lg), r)))"

section \<open>Lookup and \<^verbatim>\<open>set_register\<close>\<close>

text \<open>
  \<^verbatim>\<open>for my_register in my_register_set: if my_register[0] == name: register = my_register; break\<close>
  The \<^verbatim>\<open>break\<close> leaves this innermost loop only.
\<close>

fun scan_register_set :: "string \<Rightarrow> register list \<Rightarrow> register option \<Rightarrow> register option" where
  "scan_register_set name [] register = register"
| "scan_register_set name (my_register # rest) register =
     (if fst my_register = name then Some my_register
      else scan_register_set name rest register)"

fun scan_register_sets :: "string \<Rightarrow> register list list \<Rightarrow> register option \<Rightarrow> register option" where
  "scan_register_sets name [] register = register"
| "scan_register_sets name (my_register_set # sets) register =
     scan_register_sets name sets (scan_register_set name my_register_set register)"

text \<open>
  The lists the filter leaves of one block: all of them, in the order of the block's
  keys, without a filter; the list of that type with one; none (\<^verbatim>\<open>continue\<close>) when the
  block has no list of that type.
\<close>

definition block_register_sets :: "rkind option \<Rightarrow> block \<Rightarrow> register list list" where
  "block_register_sets block_type my_block =
     (case block_type of
        None \<Rightarrow> map snd my_block
      | Some k \<Rightarrow> (case map_of my_block k of None \<Rightarrow> [] | Some regs \<Rightarrow> [regs]))"

fun find_in_blocks ::
  "block list \<Rightarrow> string \<Rightarrow> rkind option \<Rightarrow> register option \<Rightarrow> register option" where
  "find_in_blocks [] name block_type register = register"
| "find_in_blocks (my_block # blocks) name block_type register =
     find_in_blocks blocks name block_type
       (scan_register_sets name (block_register_sets block_type my_block) register)"

definition find_register ::
  "registers \<Rightarrow> api \<Rightarrow> string \<Rightarrow> rkind option \<Rightarrow> py_exn + register option" where
  "find_register R self name block_type =
     (case map_of R (api_unit self) of
        None \<Rightarrow> Inl (KeyError (api_unit self))
      | Some tbl \<Rightarrow>
          (case BLOCKS tbl of
             None \<Rightarrow> Inl (KeyError ''BLOCKS'')
           | Some blocks \<Rightarrow> Inr (find_in_blocks blocks name block_type None)))"

definition get_register :: "registers \<Rightarrow> api \<Rightarrow> string \<Rightarrow> py_exn + register option" where
  "get_register R self name = find_register R self name None"

definition not_found_msg :: string where
  "not_found_msg = ''Register not found or not HOLDING register!''"

definition not_supported_msg :: string where
  "not_supported_msg = ''Value not supported!''"

text \<open>\<^verbatim>\<open>value not in register[1]['code'].values()\<close> compares with \<^verbatim>\<open>==\<close>.\<close>

fun py_in :: "pyval \<Rightarrow> int list \<Rightarrow> bool" where
  "py_in v [] = False"
| "py_in v (k # ks) = (if py_eq v k then True else py_in v ks)"

text \<open>
  \<^verbatim>\<open>pprint(self._client.write_register(...))\<close>: an exception of the write leaves the
  method; a reply is printed, and the method goes on to its end, where it returns
  \<^verbatim>\<open>None\<close>. The result is what the caller gets (the exception, or \<^verbatim>\<open>None\<close>), what was
  printed, and the client's state.
\<close>

definition write_and_pprint ::
  "'t client \<Rightarrow> 't \<Rightarrow> int \<Rightarrow> pyval \<Rightarrow> (py_exn + unit) \<times> write_reply list \<times> 't" where
  "write_and_pprint cl t address v =
     (case write_register cl t address v of
        (Inl e, t') \<Rightarrow> (Inl e, [], t')
      | (Inr reply, t') \<Rightarrow> (Inr (), [reply], t'))"

text \<open>\<^verbatim>\<open>set_register\<close>. It has no \<^verbatim>\<open>return\<close> statement.\<close>

definition set_register ::
  "registers \<Rightarrow> api \<Rightarrow> 't client \<Rightarrow> 't \<Rightarrow> string \<Rightarrow> pyval
     \<Rightarrow> (py_exn + unit) \<times> write_reply list \<times> 't" where
  "set_register R self cl t name v =
     (case find_register R self name (Some HOLDING) of
        Inl e \<Rightarrow> (Inl e, [], t)
      | Inr None \<Rightarrow> (Inl (Exception not_found_msg), [], t)
      | Inr (Some register) \<Rightarrow>
          (case apply_type_factor (item_type (snd register)) v of
             Inl e \<Rightarrow> (Inl e, [], t)
           | Inr v' \<Rightarrow>
               (case item_code (snd register) of
                  None \<Rightarrow> write_and_pprint cl t (item_addr (snd register) - 1) v'
                | Some cm \<Rightarrow>
                    if py_in v' (map snd cm)
                    then write_and_pprint cl t (item_addr (snd register) - 1) v'
                    else (Inl (Exception not_supported_msg), [], t))))"

section \<open>Example clients\<close>

text \<open>
  Four clients on which the theorems below are instantiated. The scripted client
  answers its k-th read with the k-th reply of a list (an empty word list once the
  script is used up); its state counts the reads. The recording client answers every
  write with the response and keeps the writes it was given. The refusing client
  raises the exception its library raises when the device cannot be reached. The
  client with error replies returns an error object for every write, without raising;
  its state counts the writes.
\<close>

definition scripted_client :: "(py_exn + int list) list \<Rightarrow> nat client" where
  "scripted_client replies =
     \<lparr>connect = (\<lambda>t. (True, t)),
      read_input_registers =
        (\<lambda>t address count. (if t < length replies then replies ! t else Inr [], Suc t)),
      read_holding_registers =
        (\<lambda>t address count. (if t < length replies then replies ! t else Inr [], Suc t)),
      write_register = (\<lambda>t address v. (Inr (WriteResponse address v), t))\<rparr>"

definition recording_client :: "(int \<times> pyval) list client" where
  "recording_client =
     \<lparr>connect = (\<lambda>t. (True, t)),
      read_input_registers = (\<lambda>t address count. (Inr [], t)),
      read_holding_registers = (\<lambda>t address count. (Inr [], t)),
      write_register = (\<lambda>t address v. (Inr (WriteResponse address v), t @ [(address, v)]))\<rparr>"

definition refusing_client :: "nat client" where
  "refusing_client =
     \<lparr>connect = (\<lambda>t. (False, t)),
      read_input_registers = (\<lambda>t address count. (Inl (OtherError ''ConnectionException''), Suc t)),
      read_holding_registers = (\<lambda>t address count. (Inl (OtherError ''ConnectionException''), Suc t)),
      write_register = (\<lambda>t address v. (Inl (OtherError ''ConnectionException''), Suc t))\<rparr>"


definition LWZ_api :: api where
  "LWZ_api = \<lparr>api_unit = ''LWZ'', api_slave = 1, api_update_on_read = False\<rparr>"

text \<open>A small catalogue of three blocks, one list each.\<close>

definition example_blocks :: "block list" where
  "example_blocks =
     [[(INPUT, [reg_p ''A'' 1 6])],
      [(INPUT, [reg_p ''B'' 2001 6, reg_p ''C'' 2002 6])],
      [(HOLDING, [reg_u ''D'' 1001 2 degC])]]"

definition example_registers :: registers where
  "example_registers = [(''EX'', \<lparr>ERRORS = Some LWZ_ERRORS, BLOCKS = Some example_blocks\<rparr>)]"

definition example_api :: api where
  "example_api = \<lparr>api_unit = ''EX'', api_slave = 1, api_update_on_read = False\<rparr>"

section \<open>Properties of the codec\<close>

lemma err_scan_Some: "err_scan es raw (Some n) = Some n"
  by (induction es) simp_all

lemma err_scan_miss: "raw \<notin> snd ` set es \<Longrightarrow> err_scan es raw None = None"
  by (induction es) auto

lemma err_scan_hit:
  "(n, raw) \<in> set es \<Longrightarrow> distinct (map snd es) \<Longrightarrow> err_scan es raw None = Some n"
proof (induction es)
  case Nil
  then show ?case by simp
next
  case (Cons e es)
  show ?case
  proof (cases "snd e = raw")
    case True
    with Cons.prems have "e = (n, raw)"
      by (cases e) (auto simp: image_iff)
    then show ?thesis by (simp add: err_scan_Some)
  next
    case False
    with Cons show ?thesis by auto
  qed
qed

lemma code_scan_int:
  "code_scan cm (VInt v) coded =
     Inr (case find (\<lambda>e. snd e = v) cm of
            Some e \<Rightarrow> [fst e]
          | None \<Rightarrow> coded @ map fst (filter (\<lambda>e. v AND snd e \<noteq> 0) cm))"
  by (induction cm arbitrary: coded) (auto split: option.splits)

lemma scale_int: "ty \<noteq> 2 \<Longrightarrow> ty \<noteq> 7 \<Longrightarrow> scale ty raw = VInt raw"
  by (simp add: scale_def)

lemma py_round_of_int: "py_round (of_int n) = n"
  by (simp add: py_round_def)

lemma py_round_cases:
  obtains (down) "x - of_int \<lfloor>x\<rfloor> < 1 / 2" "py_round x = \<lfloor>x\<rfloor>"
  | (up) "1 / 2 < x - of_int \<lfloor>x\<rfloor>" "py_round x = \<lfloor>x\<rfloor> + 1"
  | (tie_even) "x - of_int \<lfloor>x\<rfloor> = 1 / 2" "even \<lfloor>x\<rfloor>" "py_round x = \<lfloor>x\<rfloor>"
  | (tie_odd) "x - of_int \<lfloor>x\<rfloor> = 1 / 2" "odd \<lfloor>x\<rfloor>" "py_round x = \<lfloor>x\<rfloor> + 1"
  unfolding py_round_def Let_def
  by (cases "x - of_int \<lfloor>x\<rfloor> < 1 / 2"; cases "1 / 2 < x - of_int \<lfloor>x\<rfloor>";
      cases "even \<lfloor>x\<rfloor>") auto

lemma py_round_near: "\<bar>of_int (py_round x) - x\<bar> \<le> 1 / 2"
proof -
  have f: "of_int \<lfloor>x\<rfloor> \<le> x" "x < of_int \<lfloor>x\<rfloor> + 1" by linarith+
  show ?thesis
  proof (cases x rule: py_round_cases)
    case down
    with f show ?thesis by (simp add: abs_if; linarith)
  next
    case up
    with f show ?thesis by (simp add: abs_if; linarith)
  next
    case tie_even
    with f show ?thesis by (simp add: abs_if; linarith)
  next
    case tie_odd
    with f show ?thesis by (simp add: abs_if; linarith)
  qed
qed

lemma py_round_tie_even: "\<bar>of_int (py_round x) - x\<bar> = 1 / 2 \<Longrightarrow> even (py_round x)"
proof -
  assume a: "\<bar>of_int (py_round x) - x\<bar> = 1 / 2"
  have f: "of_int \<lfloor>x\<rfloor> \<le> x" "x < of_int \<lfloor>x\<rfloor> + 1" by linarith+
  show ?thesis
  proof (cases x rule: py_round_cases)
    case down
    with a f show ?thesis by (simp add: abs_if split: if_splits; linarith)
  next
    case up
    with a f show ?thesis by (simp add: abs_if split: if_splits; linarith)
  next
    case tie_even
    then show ?thesis by simp
  next
    case tie_odd
    then show ?thesis by simp
  qed
qed

lemma scale2_exact: "scale 2 raw = VFloat (of_int raw / 10)"
proof -
  have "of_int raw * (1 / 10) * 10 ^ 1 = (of_int raw :: rat)" by simp
  then show ?thesis
    by (simp add: scale_def py_round_nd_def py_round_of_int del: of_int_mult)
qed

section \<open>The catalogue's address order\<close>

text \<open>
  C1: within one register list of a block, the register at index \<open>i\<close> should have the
  address of the first register plus \<open>i\<close>, because \<^verbatim>\<open>update\<close> stores the word at
  index \<open>i\<close> of a ranged read into the register at index \<open>i\<close>. The first list of the LWZ
  catalogue declares the addresses 1, 2, 4, 5, 3, 6 in this order. With a read whose
  word for device address \<open>a\<close> is \<open>100 + a\<close>, the register declared at address 4 receives
  the word of address 3, the one declared at 5 the word of address 4, and the one
  declared at 3 the word of address 5.
\<close>

theorem LWZ_block1_addresses_out_of_order:
  "map (item_addr \<circ> snd) (take 6 LWZ_BLOCK1) = [1, 2, 4, 5, 3, 6]
   \<and> map (\<lambda>r. (fst r, item_addr (snd r), item_value_raw (snd r)))
         (take 5 (drop 2 (fst (assign_results (Some LWZ_ERRORS) LWZ_BLOCK1 (map int [101..<134])))))
       = [(''ACTUAL_ROOM_TEMPERATURE_HC2'', 4, Some 103),
          (''SET_ROOM_TEMPERATURE_HC2'', 5, Some 104),
          (''RELATIVE_HUMIDITY_HC1'', 3, Some 105),
          (''RELATIVE_HUMIDITY_HC2'', 6, Some 106),
          (''OUTSIDE_TEMPERATURE'', 7, Some 107)]"
  by code_simp

text \<open>The other five lists of the catalogue are in address order.\<close>

lemma LWZ_other_lists_contiguous:
  "map (item_addr \<circ> snd) LWZ_BLOCK2 = [1001..1027]"
  "map (item_addr \<circ> snd) LWZ_BLOCK3 = [2001..2005]"
  "map (item_addr \<circ> snd) LWZ_BLOCK4 = [3001..3032]"
  "map (item_addr \<circ> snd) LWZ_BLOCK5 = [4001..4003]"
  "map (item_addr \<circ> snd) LWZ_BLOCK6 = [5001..5002]"
  by code_simp+

section \<open>Decoding\<close>

text \<open>
  C2: a type-7 word should decode to \<open>raw * 0.01\<close> rounded to two decimals, so that
  encoding the decoded value gives the word back. The source rounds to one decimal:
  the word 151 of the type-7 register \<^verbatim>\<open>HIGH_PRESSURE\<close> decodes to 1.5, not 1.51, and
  encoding 1.5 gives 150.
\<close>

theorem type7_decode_rounds_to_one_decimal:
  "decode (Some LWZ_ERRORS) (snd (reg_u ''HIGH_PRESSURE'' 29 7 ''bar'')) 151 = Inr (VFloat (3 / 2))
   \<and> apply_type_factor 7 (VFloat (3 / 2)) = Inr (VInt 150)"
  by code_simp

text \<open>
  C3: a raw word equal to one of the unit's error sentinels decodes to the name of that
  sentinel, as a string, whatever the type of the register and whether or not it has a
  code map; \<^verbatim>\<open>update\<close> stores the word as \<^verbatim>\<open>value_raw\<close> and the name as \<^verbatim>\<open>value\<close>.
  The codes of an errors table are pairwise different, so the name is unique.
\<close>

theorem decode_error_sentinel:
  assumes "(err_name, raw) \<in> set errs" and "distinct (map snd errs)"
  shows "decode (Some errs) it raw = Inr (VStr err_name)
         \<and> assign_results (Some errs) [(name, it)] [raw]
             = ([(name, it\<lparr>item_value_raw := Some raw, item_value := Some (VStr err_name)\<rparr>)], None)"
  using assms by (simp add: decode_def err_scan_hit)

theorem decode_error_sentinel_witness:
  "(''SENSOR_LEAD_MISSING'', - 60) \<in> set LWZ_ERRORS \<and> distinct (map snd LWZ_ERRORS)
   \<and> decode (Some LWZ_ERRORS) (snd (reg_u ''OUTSIDE_TEMPERATURE'' 7 2 degC)) (- 60)
       = Inr (VStr ''SENSOR_LEAD_MISSING'')
   \<and> decode (Some LWZ_ERRORS) (snd (LWZ_BLOCK3 ! 2)) (- 60) = Inr (VStr ''SENSOR_LEAD_MISSING'')"
proof -
  have h1: "(''SENSOR_LEAD_MISSING'', - 60) \<in> set LWZ_ERRORS" by (simp add: LWZ_ERRORS_def)
  have h2: "distinct (map snd LWZ_ERRORS)" by (simp add: LWZ_ERRORS_def)
  show ?thesis
    using h1 h2 decode_error_sentinel [OF h1 h2] by simp
qed

lemma LWZ_coded_registers_integer:
  "list_all (\<lambda>r. item_code (snd r) = None \<or> item_type (snd r) = 6 \<or> item_type (snd r) = 8)
     (concat (map snd (concat LWZ_BLOCKS)))"
  by code_simp

text \<open>
  C4: for a register with a code map and a word that is no error sentinel, when an
  entry of the map equals the value exactly the decoded value is the one-element list
  of the first such entry's label, with no bitmask label; otherwise it is the list of
  the labels of all entries whose bitwise AND with the value is nonzero, in the order
  of declaration; the value 0 without a zero entry gives the empty list. The value is
  the word itself for the integer types, and every register of the catalogue that has
  a code map is of type 6 or 8 (last conjunct).
\<close>

theorem decode_code_map:
  assumes "item_code it = Some cm" and "item_type it \<noteq> 2" and "item_type it \<noteq> 7"
    and "raw \<notin> snd ` set errs"
  shows "decode (Some errs) it raw =
           Inr (VList (case find (\<lambda>e. snd e = raw) cm of
                         Some e \<Rightarrow> [fst e]
                       | None \<Rightarrow> map fst (filter (\<lambda>e. raw AND snd e \<noteq> 0) cm)))
         \<and> (raw = 0 \<and> 0 \<notin> snd ` set cm \<longrightarrow> decode (Some errs) it raw = Inr (VList []))
         \<and> list_all (\<lambda>r. item_code (snd r) = None \<or> item_type (snd r) = 6 \<or> item_type (snd r) = 8)
              (concat (map snd (concat LWZ_BLOCKS)))"
proof -
  have d: "decode (Some errs) it raw =
           Inr (VList (case find (\<lambda>e. snd e = raw) cm of
                         Some e \<Rightarrow> [fst e]
                       | None \<Rightarrow> map fst (filter (\<lambda>e. raw AND snd e \<noteq> 0) cm)))"
    using assms by (simp add: decode_def err_scan_miss scale_int code_scan_int split: option.splits)
  have z: "find (\<lambda>e. snd e = (0::int)) cm = None" if "0 \<notin> snd ` set cm"
    using that by (force simp: find_None_iff image_iff)
  from d z show ?thesis
    by (auto simp: LWZ_coded_registers_integer)
qed

theorem decode_code_map_witness:
  "decode (Some LWZ_ERRORS) (snd (LWZ_BLOCK3 ! 0)) 6 = Inr (VList [''COMPRESSOR'', ''HEATING''])
   \<and> decode (Some LWZ_ERRORS) (snd (LWZ_BLOCK2 ! 0)) 5 = Inr (VList [''DHW''])
   \<and> decode (Some LWZ_ERRORS) (snd (LWZ_BLOCK3 ! 0)) 0 = Inr (VList [])"
proof -
  let ?st = "snd (LWZ_BLOCK3 ! 0)"
  let ?md = "snd (LWZ_BLOCK2 ! 0)"
  have c1: "item_code ?st = Some (the (item_code ?st))" "item_type ?st \<noteq> 2" "item_type ?st \<noteq> 7"
    by (simp_all add: LWZ_BLOCK3_def reg_c_def)
  have c2: "item_code ?md = Some (the (item_code ?md))" "item_type ?md \<noteq> 2" "item_type ?md \<noteq> 7"
    by (simp_all add: LWZ_BLOCK2_def reg_c_def)
  have e: "(6::int) \<notin> snd ` set LWZ_ERRORS" "(5::int) \<notin> snd ` set LWZ_ERRORS"
    "(0::int) \<notin> snd ` set LWZ_ERRORS"
    by (simp_all add: LWZ_ERRORS_def)
  have z: "(0::int) \<notin> snd ` set (the (item_code ?st))"
    by (simp add: LWZ_BLOCK3_def reg_c_def)
  show ?thesis
    using decode_code_map [OF c1 e(1)] decode_code_map [OF c2 e(2)] decode_code_map [OF c1 e(3)] z
    by (simp add: LWZ_BLOCK3_def LWZ_BLOCK2_def reg_c_def)
qed

section \<open>Encoding\<close>

text \<open>
  C8, as the code has it: the roundings of \<^verbatim>\<open>set_register\<close>, \<^verbatim>\<open>round(value * 10)\<close> for
  type 2 and \<^verbatim>\<open>round(value * 100)\<close> for type 7, give an integer at most one half away
  from the product and, when the product lies exactly half way between two integers,
  the even one; decoding a type-2 word gives exactly a tenth of the word, so that no
  tie arises there.
\<close>

theorem encode_rounds_half_to_even:
  "apply_type_factor 2 (VFloat v) = Inr (VInt (py_round (v * 10)))
   \<and> apply_type_factor 7 (VFloat v) = Inr (VInt (py_round (v * 100)))
   \<and> \<bar>of_int (py_round x) - x\<bar> \<le> 1 / 2
   \<and> (\<bar>of_int (py_round x) - x\<bar> = 1 / 2 \<longrightarrow> even (py_round x))
   \<and> scale 2 raw = VFloat (of_int raw / 10)"
proof -
  have "apply_type_factor 2 (VFloat v) = Inr (VInt (py_round (v * 10)))"
    and "apply_type_factor 7 (VFloat v) = Inr (VInt (py_round (v * 100)))"
    by (simp_all add: apply_type_factor_def)
  then show ?thesis
    using py_round_near [of x] py_round_tie_even [of x] scale2_exact [of raw] by blast
qed

theorem encode_rounds_half_to_even_witness:
  "apply_type_factor 2 (VFloat (9 / 4)) = Inr (VInt 22)
   \<and> apply_type_factor 7 (VFloat (1 / 8)) = Inr (VInt 12)
   \<and> \<bar>of_int (py_round (45 / 2)) - 45 / 2\<bar> = (1 / 2 :: rat)
   \<and> even (py_round (45 / 2))
   \<and> scale 2 225 = VFloat (45 / 2)"
proof -
  have r: "py_round (45 / 2) = 22" "py_round (25 / 2) = 12"
    by code_simp+
  have h: "\<bar>of_int (py_round (45 / 2)) - 45 / 2\<bar> = (1 / 2 :: rat)"
    by (simp add: r)
  show ?thesis
    using encode_rounds_half_to_even [of "9 / 4" "45 / 2" 225]
      encode_rounds_half_to_even [of "1 / 8" "45 / 2" 225] h
    by (simp add: r)
qed

text \<open>
  Writing 2.25 to the type-2 holding register \<^verbatim>\<open>ROOM_TEMP_HEAT_DAY_HC1\<close> sends the word
  22 to address 1001: the tie 22.5 goes to the even neighbour, not away from zero.
\<close>

theorem encode_half_away_from_zero_counterexample:
  "set_register REGISTERS LWZ_api recording_client [] ''ROOM_TEMP_HEAT_DAY_HC1'' (VFloat (9 / 4))
     = (Inr (), [WriteResponse 1001 (VInt 22)], [(1001, VInt 22)])"
  by code_simp

section \<open>The unit without tables\<close>

text \<open>
  C10: a session for the unit \<^verbatim>\<open>'WPM'\<close> is constructed without an exception, since the
  name is a key of \<^verbatim>\<open>REGISTERS\<close>; every \<^verbatim>\<open>update\<close> of that session then raises
  \<^verbatim>\<open>KeyError('BLOCKS')\<close>, which the handler for \<^verbatim>\<open>AttributeError\<close> does not catch: the
  call neither returns false nor true, whatever the client and its state.
\<close>

theorem WPM_constructs_but_update_raises:
  "init REGISTERS cl t ''WPM'' uor =
     Inr (\<lparr>api_unit = ''WPM'', api_slave = 1, api_update_on_read = uor\<rparr>, snd (connect cl t))
   \<and> update REGISTERS \<lparr>api_unit = ''WPM'', api_slave = 1, api_update_on_read = uor\<rparr> cl t'
       = ((REGISTERS, t', []), Inl (KeyError ''BLOCKS''))"
  by (simp add: init_def update_def update_unit_def try_body_def REGISTERS_def)

section \<open>Lookup by name\<close>

lemma scan_register_set_find:
  "scan_register_set name regs acc =
     (case find (\<lambda>r. fst r = name) regs of Some r \<Rightarrow> Some r | None \<Rightarrow> acc)"
  by (induction regs) simp_all





text \<open>The names of the LWZ catalogue are pairwise different.\<close>

lemma LWZ_names_distinct: "distinct (map fst (concat (map snd (concat LWZ_BLOCKS))))"
  by code_simp

text \<open>
  C5: a lookup should return the first register of that name in catalogue order and
  stop there, also when a later block or list holds a register of the same name. The
  \<^verbatim>\<open>break\<close> of \<^verbatim>\<open>_find_register\<close> ends the scan of one list only: the remaining lists
  and blocks are still scanned and a later match replaces the earlier one. On a table
  with the name \<^verbatim>\<open>X\<close> in two blocks, the register of the second block is returned,
  with and without a filter.
\<close>

theorem find_register_returns_last_match:
  "find_in_blocks [[(INPUT, [reg_p ''X'' 1 6])], [(HOLDING, [reg_p ''X'' 1001 6])]] ''X'' None None
     = Some (reg_p ''X'' 1001 6)
   \<and> find_in_blocks [[(HOLDING, [reg_p ''X'' 1001 6])], [(HOLDING, [reg_p ''X'' 4001 6])]] ''X''
       (Some HOLDING) None
     = Some (reg_p ''X'' 4001 6)
   \<and> get_register
       [(''U'', \<lparr>ERRORS = Some [],
                 BLOCKS = Some [[(INPUT, [reg_p ''X'' 1 6])], [(HOLDING, [reg_p ''X'' 1001 6])]]\<rparr>)]
       \<lparr>api_unit = ''U'', api_slave = 1, api_update_on_read = False\<rparr> ''X''
     = Inr (Some (reg_p ''X'' 1001 6))"
  by (simp add: get_register_def find_register_def block_register_sets_def reg_p_def)

section \<open>\<^verbatim>\<open>set_register\<close>\<close>




section \<open>\<^verbatim>\<open>update\<close>: short reads and exceptions\<close>

lemma update_blocks_append:
  "update_blocks errs cl cnt (bs1 @ bs2) (t, lg) =
     (case update_blocks errs cl cnt bs1 (t, lg) of
        ((bs1', t1, lg1), Some e) \<Rightarrow> ((bs1' @ bs2, t1, lg1), Some e)
      | ((bs1', t1, lg1), None) \<Rightarrow>
          (case update_blocks errs cl (cnt + length bs1) bs2 (t1, lg1) of
             ((bs2', t2, lg2), r) \<Rightarrow> ((bs1' @ bs2', t2, lg2), r)))"
proof (induction bs1 arbitrary: cnt t lg)
  case Nil
  show ?case by (simp split: prod.splits)
next
  case (Cons b bs1)
  show ?case
    by (simp add: Cons.IH split: prod.splits option.splits)
qed

lemma update_block_single_short:
  assumes "read_registers cl rtype t (item_addr (snd r0) - 1) (int (length (r0 # regs))) = (Inr results, t2)"
    and "length results \<noteq> length (r0 # regs)"
  shows "update_block errs cl ([(rtype, r0 # regs)], t, lg) =
           (([(rtype, r0 # regs)], t2,
             lg @ [Warning_inconsistent_amounts (int (length (r0 # regs))) (length results)]), None)"
  using assms by (cases rtype) (simp_all add: update_block_def update_rtype_def)

lemma update_block_single_raise:
  assumes "read_registers cl rtype t (item_addr (snd r0) - 1) (int (length (r0 # regs))) = (Inl e, t2)"
  shows "update_block errs cl ([(rtype, r0 # regs)], t, lg) = (([(rtype, r0 # regs)], t2, lg), Some e)"
  using assms by (cases rtype) (simp_all add: update_block_def update_rtype_def)

lemma update_unit_short_read:
  assumes before: "update_blocks errs cl 1 bs1 (t0, []) = ((bs1', t1, lg1), None)"
    and reply: "read_registers cl rtype t1 (item_addr (snd r0) - 1) (int (length (r0 # regs)))
                  = (Inr results, t2)"
    and short: "length results \<noteq> length (r0 # regs)"
    and after: "update_blocks errs cl (length bs1 + 2) bs2
                  (t2, lg1 @ [Info_processing_block (length bs1 + 1),
                              Warning_inconsistent_amounts (int (length (r0 # regs))) (length results)])
                  = ((bs2', t3, lg3), None)"
  shows "update_unit \<lparr>ERRORS = errs, BLOCKS = Some (bs1 @ [(rtype, r0 # regs)] # bs2)\<rparr> cl t0
           = ((\<lparr>ERRORS = errs, BLOCKS = Some (bs1' @ [(rtype, r0 # regs)] # bs2')\<rparr>, t3, lg3), Inr True)"
proof -
  have blk: "update_block errs cl ([(rtype, r0 # regs)], t1, lg1 @ [Info_processing_block (Suc (length bs1))])
      = (([(rtype, r0 # regs)], t2,
          (lg1 @ [Info_processing_block (Suc (length bs1))])
            @ [Warning_inconsistent_amounts (int (length (r0 # regs))) (length results)]), None)"
    by (rule update_block_single_short [OF reply short])
  have "update_blocks errs cl 1 (bs1 @ [(rtype, r0 # regs)] # bs2) (t0, [])
          = ((bs1' @ [(rtype, r0 # regs)] # bs2', t3, lg3), None)"
    using before blk after by (simp add: update_blocks_append)
  then show ?thesis
    by (simp add: update_unit_def try_body_def)
qed

text \<open>
  C6: when the read for a list returns a word list whose length is not the number of
  registers asked for, the registers of that list keep the raw and decoded values they
  had; the blocks before and after it are updated as their own reads say; and the call
  returns true when no read raises, also when that list is all there is to read
  (\<open>bs1 = bs2 = []\<close>), so that a short read never makes the call report failure. Every
  block of the catalogue holds one list, as the block of the short read does here.
\<close>

theorem update_short_read_leaves_list_unchanged:
  assumes table: "map_of R (api_unit self)
                    = Some \<lparr>ERRORS = errs, BLOCKS = Some (bs1 @ [(rtype, r0 # regs)] # bs2)\<rparr>"
    and before: "update_blocks errs cl 1 bs1 (t0, []) = ((bs1', t1, lg1), None)"
    and reply: "read_registers cl rtype t1 (item_addr (snd r0) - 1) (int (length (r0 # regs)))
                  = (Inr results, t2)"
    and short: "length results \<noteq> length (r0 # regs)"
    and after: "update_blocks errs cl (length bs1 + 2) bs2
                  (t2, lg1 @ [Info_processing_block (length bs1 + 1),
                              Warning_inconsistent_amounts (int (length (r0 # regs))) (length results)])
                  = ((bs2', t3, lg3), None)"
  shows "update R self cl t0
           = ((table_set R (api_unit self)
                 \<lparr>ERRORS = errs, BLOCKS = Some (bs1' @ [(rtype, r0 # regs)] # bs2')\<rparr>, t3, lg3),
              Inr True)"
  using table update_unit_short_read [OF before reply short after]
  by (simp add: update_def)

theorem update_short_read_leaves_list_unchanged_witness:
  "update example_registers example_api (scripted_client [Inr [7], Inr [9], Inr [215]]) 0
   = (([(''EX'',
         \<lparr>ERRORS = Some LWZ_ERRORS,
          BLOCKS = Some
            [[(INPUT, [(''A'', (snd (reg_p ''A'' 1 6))
                           \<lparr>item_value_raw := Some 7, item_value := Some (VInt 7)\<rparr>)])],
             [(INPUT, [reg_p ''B'' 2001 6, reg_p ''C'' 2002 6])],
             [(HOLDING, [(''D'', (snd (reg_u ''D'' 1001 2 degC))
                            \<lparr>item_value_raw := Some 215, item_value := Some (VFloat (43 / 2))\<rparr>)])]]\<rparr>)],
       3,
       [Info_processing_block 1, Info_processing_block 2, Warning_inconsistent_amounts 2 1,
        Info_processing_block 3]),
      Inr True)
   \<and> update [(''EX'', \<lparr>ERRORS = Some LWZ_ERRORS,
                        BLOCKS = Some [[(INPUT, [reg_p ''B'' 2001 6, reg_p ''C'' 2002 6])]]\<rparr>)]
       example_api (scripted_client [Inr [9]]) 0
     = (([(''EX'', \<lparr>ERRORS = Some LWZ_ERRORS,
                    BLOCKS = Some [[(INPUT, [reg_p ''B'' 2001 6, reg_p ''C'' 2002 6])]]\<rparr>)],
         1, [Info_processing_block 1, Warning_inconsistent_amounts 2 1]),
        Inr True)"
proof -
  let ?cl = "scripted_client [Inr [7], Inr [9], Inr [215]]"
  let ?A' = "(''A'', (snd (reg_p ''A'' 1 6))\<lparr>item_value_raw := Some 7, item_value := Some (VInt 7)\<rparr>)"
  let ?D' = "(''D'', (snd (reg_u ''D'' 1001 2 degC))
                          \<lparr>item_value_raw := Some 215, item_value := Some (VFloat (43 / 2))\<rparr>)"
  have table: "map_of example_registers (api_unit example_api)
      = Some \<lparr>ERRORS = Some LWZ_ERRORS,
              BLOCKS = Some ([[(INPUT, [reg_p ''A'' 1 6])]]
                             @ [(INPUT, reg_p ''B'' 2001 6 # [reg_p ''C'' 2002 6])]
                             # [[(HOLDING, [reg_u ''D'' 1001 2 degC])]])\<rparr>"
    by (simp add: example_registers_def example_api_def example_blocks_def)
  have before: "update_blocks (Some LWZ_ERRORS) ?cl 1 [[(INPUT, [reg_p ''A'' 1 6])]] (0, [])
      = (([[(INPUT, [?A'])]], 1, [Info_processing_block 1]), None)"
    by code_simp
  have reply: "read_registers ?cl INPUT 1 (item_addr (snd (reg_p ''B'' 2001 6)) - 1)
      (int (length (reg_p ''B'' 2001 6 # [reg_p ''C'' 2002 6]))) = (Inr [9], 2)"
    by code_simp
  have short: "length [9::int] \<noteq> length (reg_p ''B'' 2001 6 # [reg_p ''C'' 2002 6])"
    by simp
  have after: "update_blocks (Some LWZ_ERRORS) ?cl (length [[(INPUT, [reg_p ''A'' 1 6])]] + 2)
      [[(HOLDING, [reg_u ''D'' 1001 2 degC])]]
      (2, [Info_processing_block 1] @ [Info_processing_block (length [[(INPUT, [reg_p ''A'' 1 6])]] + 1),
              Warning_inconsistent_amounts (int (length (reg_p ''B'' 2001 6 # [reg_p ''C'' 2002 6])))
                (length [9::int])])
      = (([[(HOLDING, [?D'])]], 3,
          [Info_processing_block 1, Info_processing_block 2, Warning_inconsistent_amounts 2 1,
           Info_processing_block 3]), None)"
    by code_simp
  let ?cl1 = "scripted_client [Inr [9]]"
  let ?R1 = "[(''EX'', \<lparr>ERRORS = Some LWZ_ERRORS,
                        BLOCKS = Some [[(INPUT, [reg_p ''B'' 2001 6, reg_p ''C'' 2002 6])]]\<rparr>)]"
  have table1: "map_of ?R1 (api_unit example_api)
      = Some \<lparr>ERRORS = Some LWZ_ERRORS,
              BLOCKS = Some ([] @ [(INPUT, reg_p ''B'' 2001 6 # [reg_p ''C'' 2002 6])] # [])\<rparr>"
    by (simp add: example_api_def)
  have before1: "update_blocks (Some LWZ_ERRORS) ?cl1 1 [] (0, []) = (([], 0, []), None)"
    by simp
  have reply1: "read_registers ?cl1 INPUT 0 (item_addr (snd (reg_p ''B'' 2001 6)) - 1)
      (int (length (reg_p ''B'' 2001 6 # [reg_p ''C'' 2002 6]))) = (Inr [9], 1)"
    by code_simp
  have after1: "update_blocks (Some LWZ_ERRORS) ?cl1 (length ([] :: block list) + 2) []
      (1, [] @ [Info_processing_block (length ([] :: block list) + 1),
              Warning_inconsistent_amounts (int (length (reg_p ''B'' 2001 6 # [reg_p ''C'' 2002 6])))
                (length [9::int])])
      = (([], 1, [Info_processing_block 1, Warning_inconsistent_amounts 2 1]), None)"
    by simp
  show ?thesis
    using update_short_read_leaves_list_unchanged [OF table before reply short after]
      update_short_read_leaves_list_unchanged [OF table1 before1 reply1 short after1]
    by (simp add: example_registers_def example_api_def)
qed

lemma update_unit_read_exception:
  assumes before: "update_blocks errs cl 1 bs1 (t0, []) = ((bs1', t1, lg1), None)"
    and fault: "read_registers cl rtype t1 (item_addr (snd r0) - 1) (int (length (r0 # regs)))
                  = (Inl e, t2)"
  shows "update_unit \<lparr>ERRORS = errs, BLOCKS = Some (bs1 @ [(rtype, r0 # regs)] # bs2)\<rparr> cl t0
           = ((\<lparr>ERRORS = errs, BLOCKS = Some (bs1' @ [(rtype, r0 # regs)] # bs2)\<rparr>, t2,
               lg1 @ [Info_processing_block (length bs1 + 1)]
                 @ (if e = AttributeError then [Exception_modbus_read_failed] else [])),
              if e = AttributeError then Inr False else Inl e)"
proof -
  have blk: "update_block errs cl ([(rtype, r0 # regs)], t1, lg1 @ [Info_processing_block (Suc (length bs1))])
      = (([(rtype, r0 # regs)], t2, lg1 @ [Info_processing_block (Suc (length bs1))]), Some e)"
    by (rule update_block_single_raise [OF fault])
  have "update_blocks errs cl 1 (bs1 @ [(rtype, r0 # regs)] # bs2) (t0, [])
          = ((bs1' @ [(rtype, r0 # regs)] # bs2, t2, lg1 @ [Info_processing_block (Suc (length bs1))]), Some e)"
    using before blk by (simp add: update_blocks_append)
  then show ?thesis
    by (cases e) (simp_all add: update_unit_def try_body_def)
qed

text \<open>
  C7, as the code has it: when the read for a list raises \<^verbatim>\<open>AttributeError\<close> (the reply
  has no \<^verbatim>\<open>registers\<close>), \<^verbatim>\<open>update\<close> logs, issues no further read, leaves the remaining
  blocks as they were, keeps what the earlier blocks of the call stored, and returns
  false. An exception of any other class leaves the state in the same way, but is not
  caught: it reaches the caller.
\<close>

theorem update_read_exception:
  assumes table: "map_of R (api_unit self)
                    = Some \<lparr>ERRORS = errs, BLOCKS = Some (bs1 @ [(rtype, r0 # regs)] # bs2)\<rparr>"
    and before: "update_blocks errs cl 1 bs1 (t0, []) = ((bs1', t1, lg1), None)"
    and fault: "read_registers cl rtype t1 (item_addr (snd r0) - 1) (int (length (r0 # regs)))
                  = (Inl e, t2)"
  shows "update R self cl t0
           = ((table_set R (api_unit self)
                 \<lparr>ERRORS = errs, BLOCKS = Some (bs1' @ [(rtype, r0 # regs)] # bs2)\<rparr>, t2,
               lg1 @ [Info_processing_block (length bs1 + 1)]
                 @ (if e = AttributeError then [Exception_modbus_read_failed] else [])),
              if e = AttributeError then Inr False else Inl e)"
  using table update_unit_read_exception [OF before fault, of bs2]
  by (simp add: update_def)

theorem update_read_exception_witness:
  "update example_registers example_api (scripted_client [Inr [7], Inl AttributeError]) 0
   = (([(''EX'',
         \<lparr>ERRORS = Some LWZ_ERRORS,
          BLOCKS = Some
            [[(INPUT, [(''A'', (snd (reg_p ''A'' 1 6))
                           \<lparr>item_value_raw := Some 7, item_value := Some (VInt 7)\<rparr>)])],
             [(INPUT, [reg_p ''B'' 2001 6, reg_p ''C'' 2002 6])],
             [(HOLDING, [reg_u ''D'' 1001 2 degC])]]\<rparr>)],
       2,
       [Info_processing_block 1, Info_processing_block 2, Exception_modbus_read_failed]),
      Inr False)
   \<and> update example_registers example_api
       (scripted_client [Inr [7], Inl (OtherError ''ConnectionException'')]) 0
     = (([(''EX'',
           \<lparr>ERRORS = Some LWZ_ERRORS,
            BLOCKS = Some
              [[(INPUT, [(''A'', (snd (reg_p ''A'' 1 6))
                             \<lparr>item_value_raw := Some 7, item_value := Some (VInt 7)\<rparr>)])],
               [(INPUT, [reg_p ''B'' 2001 6, reg_p ''C'' 2002 6])],
               [(HOLDING, [reg_u ''D'' 1001 2 degC])]]\<rparr>)],
         2,
         [Info_processing_block 1, Info_processing_block 2]),
        Inl (OtherError ''ConnectionException''))"
proof -
  let ?cl = "scripted_client [Inr [7], Inl AttributeError]"
  let ?cl' = "scripted_client [Inr [7], Inl (OtherError ''ConnectionException'')]"
  let ?A' = "(''A'', (snd (reg_p ''A'' 1 6))\<lparr>item_value_raw := Some 7, item_value := Some (VInt 7)\<rparr>)"
  have table: "map_of example_registers (api_unit example_api)
      = Some \<lparr>ERRORS = Some LWZ_ERRORS,
              BLOCKS = Some ([[(INPUT, [reg_p ''A'' 1 6])]]
                             @ [(INPUT, reg_p ''B'' 2001 6 # [reg_p ''C'' 2002 6])]
                             # [[(HOLDING, [reg_u ''D'' 1001 2 degC])]])\<rparr>"
    by (simp add: example_registers_def example_api_def example_blocks_def)
  have before: "update_blocks (Some LWZ_ERRORS) ?cl 1 [[(INPUT, [reg_p ''A'' 1 6])]] (0, [])
      = (([[(INPUT, [?A'])]], 1, [Info_processing_block 1]), None)"
    by code_simp
  have fault: "read_registers ?cl INPUT 1 (item_addr (snd (reg_p ''B'' 2001 6)) - 1)
      (int (length (reg_p ''B'' 2001 6 # [reg_p ''C'' 2002 6]))) = (Inl AttributeError, 2)"
    by code_simp
  have before': "update_blocks (Some LWZ_ERRORS) ?cl' 1 [[(INPUT, [reg_p ''A'' 1 6])]] (0, [])
      = (([[(INPUT, [?A'])]], 1, [Info_processing_block 1]), None)"
    by code_simp
  have fault': "read_registers ?cl' INPUT 1 (item_addr (snd (reg_p ''B'' 2001 6)) - 1)
      (int (length (reg_p ''B'' 2001 6 # [reg_p ''C'' 2002 6])))
      = (Inl (OtherError ''ConnectionException''), 2)"
    by code_simp
  show ?thesis
    using update_read_exception [OF table before fault]
      update_read_exception [OF table before' fault']
    by (simp add: example_registers_def example_api_def)
qed

text \<open>
  A client that raises its library's connection exception on the first read: the
  exception leaves \<^verbatim>\<open>update\<close>, which returns neither true nor false.
\<close>

theorem update_propagates_other_exceptions_counterexample:
  "update REGISTERS LWZ_api refusing_client 0
     = ((REGISTERS, 1, [Info_processing_block 1]), Inl (OtherError ''ConnectionException''))"
  by code_simp

end
